theory Spec2Isabelle
  imports Main "HOL-Library.Word"
begin

section \<open>The ACMEProxy provider of libdns (provider.go)\<close>

text \<open>
  The provider turns a batch of DNS records into one HTTP POST per record against
  \<open><endpoint>/<action>\<close>, checks that the proxy echoes the message it was sent, and
  returns the records completed so far together with the first error.

  The embedding follows provider.go function by function. The Go code is effectful: it
  calls an injected HTTP client. The effect is made explicit by a world that is passed
  through every call: the state of the client, and the trace of the requests handed to
  \<open>HTTPClient.Do\<close>. Go's \<open>(value, error)\<close> results are kept as they are: a pair where
  both halves may be present, since \<open>doActions\<close> returns the completed records
  together with the error.
\<close>

subsection \<open>Data (provider.go, lines 16-42)\<close>

text \<open>
  \<open>libdns.Record\<close>, as provider.go reads and builds it (lines 109-115). \<open>TTL\<close> is a
  \<open>time.Duration\<close>, a signed 64-bit integer.
\<close>

record Record =
  ID :: string
  Type :: string
  Name :: string
  Value :: string
  TTL :: "64 word"

text \<open>
  The wire message \<open>acmeProxy\<close> (lines 20-23). Its second field is \<open>Value\<close> in the
  source; the name is taken by \<open>Record\<close>, hence the suffix.
\<close>

record acmeProxy =
  FQDN :: string
  Value_msg :: string

record Credentials =
  Username :: string
  Password :: string

text \<open>
  What provider.go sets and reads of \<open>http.Request\<close> and \<open>http.Response\<close>. The
  header is a map from the header name to its value (\<open>Header.Set\<close> replaces the
  value); the request body is the content of the \<open>bytes.Buffer\<close>.
\<close>

record 'c Request =
  Context :: 'c
  Method :: string
  URL :: string
  Header :: "string \<rightharpoonup> string"
  Body :: string

record 'b Response =
  StatusCode :: int
  RespBody :: 'b

text \<open>
  The interface \<open>HTTPClient\<close> (lines 16-18): \<open>Do\<close> takes a request and returns a
  response or a transport error. A client may keep state (connections, a test double's
  script), so \<open>Do\<close> is a function of the client's state, which it returns updated.
\<close>

type_synonym ('c, 'b, 's) HTTPClient = "'s \<Rightarrow> 'c Request \<Rightarrow> (string + 'b Response) \<times> 's"

text \<open>
  \<open>Provider\<close> (lines 33-42) embeds \<open>Credentials\<close>. A nil \<open>HTTPClient\<close> is \<open>None\<close>.
\<close>

record ('c, 'b, 's) Provider = Credentials +
  Endpoint :: string
  HTTPClient :: "('c, 'b, 's) HTTPClient option"

text \<open>
  The world: every request handed to \<open>Do\<close>, in order, and the state of the client.
\<close>

record ('c, 's) World =
  sent :: "'c Request list"
  client_state :: 's

text \<open>
  The errors of provider.go, one constructor for each \<open>fmt.Errorf\<close>, with the values
  the message is formatted from; \<open>%w\<close> wraps the error of the callee.
\<close>

datatype error =
    OnlySupportsTXT
  | CouldNotMarshalJSON string
  | CouldNotCreateRequest string
  | CouldNotSendRequest string
  | ReceivedStatusCode int
  | CouldNotUnmarshalJSON string
  | UnexpectedFQDN string
  | UnexpectedValue string
  | InvalidEndpoint string string
  | CouldNotActionRecord string string error
  | DoesNotSupportListing

subsection \<open>The libraries provider.go calls\<close>

text \<open>
  provider.go calls Go's \<open>net/url\<close>, \<open>net/http\<close> and \<open>encoding/json\<close>, and
  \<open>libdns.AbsoluteName\<close>. None of them is code of this repository, so they are
  parameters of the model, collected in one record:
  \<^item> \<open>ParseNonEmptyURI\<close>: \<open>url.ParseRequestURI\<close> on a non-empty string, an error
    message or the parsed URL;
  \<^item> \<open>JoinPath\<close>, \<open>URLString\<close>: the methods \<open>JoinPath\<close> and \<open>String\<close> of \<open>*url.URL\<close>;
  \<^item> \<open>AbsoluteName\<close>: \<open>libdns.AbsoluteName(name, zone)\<close>;
  \<^item> \<open>Encode\<close>: \<open>json.NewEncoder(buf).Encode(msg)\<close>, an error message or the bytes
    written to the buffer;
  \<^item> \<open>NewRequestErr\<close>: the error of \<open>http.NewRequestWithContext\<close>, if any, for a
    context, a method and a URL string;
  \<^item> \<open>basicAuth\<close>: the base64 encoding of \<open>username:password\<close>;
  \<^item> \<open>Decode\<close>: \<open>json.NewDecoder(resp.Body).Decode(&respMsg)\<close>, an error message or
    the decoded message;
  \<^item> \<open>DefaultClient\<close>: \<open>http.DefaultClient\<close>.
\<close>

record ('u, 'c, 'b, 's) Lib =
  ParseNonEmptyURI :: "string \<Rightarrow> string + 'u"
  JoinPath :: "'u \<Rightarrow> string list \<Rightarrow> 'u"
  URLString :: "'u \<Rightarrow> string"
  AbsoluteName :: "string \<Rightarrow> string \<Rightarrow> string"
  Encode :: "acmeProxy \<Rightarrow> string + string"
  NewRequestErr :: "'c \<Rightarrow> string \<Rightarrow> string \<Rightarrow> string option"
  basicAuth :: "string \<Rightarrow> string \<Rightarrow> string"
  Decode :: "'b \<Rightarrow> string + acmeProxy"
  DefaultClient :: "('c, 'b, 's) HTTPClient"

text \<open>
  Modelled from the spec: \<open>url.ParseRequestURI\<close> is Go's standard library and not
  under src/. The spec names the empty string as an invalid endpoint, and the test
  \<open>TestProvider_AppendRecords\<close> of provider_test.go expects an error from a provider
  whose \<open>Endpoint\<close> is empty; every other string is left to the parameter.
\<close>

definition ParseRequestURI :: "('u, 'c, 'b, 's) Lib \<Rightarrow> string \<Rightarrow> string + 'u" where
  "ParseRequestURI lib rawURL =
     (if rawURL = [] then Inl ''empty url'' else ParseNonEmptyURI lib rawURL)"

text \<open>
  \<open>http.NewRequestWithContext\<close>: the request it returns has the context, the method,
  the URL and the body it was given and an empty header.
\<close>

definition NewRequestWithContext ::
  "('u, 'c, 'b, 's) Lib \<Rightarrow> 'c \<Rightarrow> string \<Rightarrow> string \<Rightarrow> string \<Rightarrow> string + 'c Request" where
  "NewRequestWithContext lib ctx method url body =
     (case NewRequestErr lib ctx method url of
        Some err \<Rightarrow> Inl err
      | None \<Rightarrow> Inr \<lparr>Context = ctx, Method = method, URL = url, Header = Map.empty, Body = body\<rparr>)"

text \<open>\<open>req.Header.Set(key, value)\<close>, for a key in canonical form.\<close>

definition Header_Set :: "'c Request \<Rightarrow> string \<Rightarrow> string \<Rightarrow> 'c Request" where
  "Header_Set req key val = req\<lparr>Header := (Header req)(key \<mapsto> val)\<rparr>"

text \<open>
  \<open>req.SetBasicAuth(username, password)\<close> sets the header \<open>Authorization\<close> to
  \<open>Basic\<close> and the encoded credentials.
\<close>

definition SetBasicAuth ::
  "('u, 'c, 'b, 's) Lib \<Rightarrow> 'c Request \<Rightarrow> string \<Rightarrow> string \<Rightarrow> 'c Request" where
  "SetBasicAuth lib req username password =
     Header_Set req ''Authorization'' (''Basic '' @ basicAuth lib username password)"

text \<open>
  A call of \<open>client.Do(req)\<close> in the world: the request joins the trace and the
  client's state moves on.
\<close>

definition Do ::
  "('c, 'b, 's) HTTPClient \<Rightarrow> 'c Request \<Rightarrow> ('c, 's) World
     \<Rightarrow> (string + 'b Response) \<times> ('c, 's) World" where
  "Do client req w =
     (case client (client_state w) req of
        (res, s') \<Rightarrow> (res, \<lparr>sent = sent w @ [req], client_state = s'\<rparr>))"

subsection \<open>The provider (provider.go, lines 44-162)\<close>

text \<open>\<open>getClient\<close> (lines 44-49).\<close>

definition getClient ::
  "('u, 'c, 'b, 's) Lib \<Rightarrow> ('c, 'b, 's) Provider \<Rightarrow> ('c, 'b, 's) HTTPClient" where
  "getClient lib p = (case HTTPClient p of None \<Rightarrow> DefaultClient lib | Some c \<Rightarrow> c)"

text \<open>
  \<open>doAction\<close> (lines 51-116), branch by branch in the order of the source. On an error
  the Go function returns the zero record with it; its only caller drops that record, so
  the result is the error alone. \<open>defer resp.Body.Close()\<close> releases the body and
  has no part in the result.
\<close>

definition doAction ::
  "('u, 'c, 'b, 's) Lib \<Rightarrow> ('c, 'b, 's) Provider \<Rightarrow> 'c \<Rightarrow> 'u \<Rightarrow> string \<Rightarrow> string \<Rightarrow> Record
     \<Rightarrow> ('c, 's) World \<Rightarrow> (error + Record) \<times> ('c, 's) World" where
  "doAction lib p ctx endpoint action zone record w =
     (if Type record \<noteq> ''TXT'' then (Inl OnlySupportsTXT, w)
      else
        (case Encode lib \<lparr>FQDN = AbsoluteName lib (Name record) zone,
                          Value_msg = Value record\<rparr> of
           Inl err \<Rightarrow> (Inl (CouldNotMarshalJSON err), w)
         | Inr reqBody \<Rightarrow>
             (case NewRequestWithContext lib ctx ''POST'' (URLString lib endpoint) reqBody of
                Inl err \<Rightarrow> (Inl (CouldNotCreateRequest err), w)
              | Inr req0 \<Rightarrow>
                  (let req1 = Header_Set req0 ''Accept'' ''application/json'';
                       req2 = Header_Set req1 ''Content-Type'' ''application/json'';
                       req = (if Username p \<noteq> [] \<or> Password p \<noteq> []
                              then SetBasicAuth lib req2 (Username p) (Password p)
                              else req2)
                   in (case Do (getClient lib p) req w of
                         (Inl err, w') \<Rightarrow> (Inl (CouldNotSendRequest err), w')
                       | (Inr resp, w') \<Rightarrow>
                           (if StatusCode resp \<noteq> 200
                            then (Inl (ReceivedStatusCode (StatusCode resp)), w')
                            else
                              (case Decode lib (RespBody resp) of
                                 Inl err \<Rightarrow> (Inl (CouldNotUnmarshalJSON err), w')
                               | Inr respMsg \<Rightarrow>
                                   (if FQDN respMsg \<noteq> AbsoluteName lib (Name record) zone
                                    then (Inl (UnexpectedFQDN (FQDN respMsg)), w')
                                    else if Value_msg respMsg \<noteq> Value record
                                    then (Inl (UnexpectedValue (Value_msg respMsg)), w')
                                    else (Inr \<lparr>ID = ID record, Type = ''TXT'',
                                               Name = Name record, Value = Value record,
                                               TTL = TTL record\<rparr>, w')))))))))"

text \<open>
  The loop of \<open>doActions\<close> (lines 130-137) over the records that are left, with the
  slice \<open>completedRecords\<close> as built so far. A Go slice is nil or a list: the result is
  \<open>Some\<close> of the list here, and \<open>None\<close> where the source returns nil.
\<close>

fun doActions_loop ::
  "('u, 'c, 'b, 's) Lib \<Rightarrow> ('c, 'b, 's) Provider \<Rightarrow> 'c \<Rightarrow> 'u \<Rightarrow> string \<Rightarrow> string
     \<Rightarrow> Record list \<Rightarrow> Record list \<Rightarrow> ('c, 's) World
     \<Rightarrow> (Record list option \<times> error option) \<times> ('c, 's) World" where
  "doActions_loop lib p ctx endpoint action zone [] completedRecords w =
     ((Some completedRecords, None), w)"
| "doActions_loop lib p ctx endpoint action zone (record # records) completedRecords w =
     (case doAction lib p ctx endpoint action zone record w of
        (Inl err, w') \<Rightarrow>
          ((Some completedRecords, Some (CouldNotActionRecord action (Name record) err)), w')
      | (Inr completedRecord, w') \<Rightarrow>
          doActions_loop lib p ctx endpoint action zone records
            (completedRecords @ [completedRecord]) w')"

text \<open>\<open>doActions\<close> (lines 118-139).\<close>

definition doActions ::
  "('u, 'c, 'b, 's) Lib \<Rightarrow> ('c, 'b, 's) Provider \<Rightarrow> 'c \<Rightarrow> string \<Rightarrow> string \<Rightarrow> Record list
     \<Rightarrow> ('c, 's) World \<Rightarrow> (Record list option \<times> error option) \<times> ('c, 's) World" where
  "doActions lib p ctx action zone records w =
     (case ParseRequestURI lib (Endpoint p) of
        Inl err \<Rightarrow> ((None, Some (InvalidEndpoint (Endpoint p) err)), w)
      | Inr uri \<Rightarrow>
          doActions_loop lib p ctx (JoinPath lib uri [action]) action zone records [] w)"

text \<open>\<open>GetRecords\<close> (lines 143-145).\<close>

definition GetRecords ::
  "('u, 'c, 'b, 's) Lib \<Rightarrow> ('c, 'b, 's) Provider \<Rightarrow> 'c \<Rightarrow> string \<Rightarrow> ('c, 's) World
     \<Rightarrow> (Record list option \<times> error option) \<times> ('c, 's) World" where
  "GetRecords lib p ctx zone w = ((None, Some DoesNotSupportListing), w)"

text \<open>\<open>SetRecords\<close> (lines 155-157).\<close>

definition SetRecords ::
  "('u, 'c, 'b, 's) Lib \<Rightarrow> ('c, 'b, 's) Provider \<Rightarrow> 'c \<Rightarrow> string \<Rightarrow> Record list
     \<Rightarrow> ('c, 's) World \<Rightarrow> (Record list option \<times> error option) \<times> ('c, 's) World" where
  "SetRecords lib p ctx zone records w = doActions lib p ctx ''present'' zone records w"

text \<open>\<open>AppendRecords\<close> (lines 149-151).\<close>

definition AppendRecords ::
  "('u, 'c, 'b, 's) Lib \<Rightarrow> ('c, 'b, 's) Provider \<Rightarrow> 'c \<Rightarrow> string \<Rightarrow> Record list
     \<Rightarrow> ('c, 's) World \<Rightarrow> (Record list option \<times> error option) \<times> ('c, 's) World" where
  "AppendRecords lib p ctx zone records w = SetRecords lib p ctx zone records w"

text \<open>\<open>DeleteRecords\<close> (lines 160-162).\<close>

definition DeleteRecords ::
  "('u, 'c, 'b, 's) Lib \<Rightarrow> ('c, 'b, 's) Provider \<Rightarrow> 'c \<Rightarrow> string \<Rightarrow> Record list
     \<Rightarrow> ('c, 's) World \<Rightarrow> (Record list option \<times> error option) \<times> ('c, 's) World" where
  "DeleteRecords lib p ctx zone records w = doActions lib p ctx ''cleanup'' zone records w"

text \<open>The elements of a Go slice: a nil slice has none.\<close>

definition elems :: "'a list option \<Rightarrow> 'a list" where
  "elems s = (case s of None \<Rightarrow> [] | Some xs \<Rightarrow> xs)"

subsection \<open>Test doubles\<close>

text \<open>
  A concrete instance of the libraries and of the client, to run the provider on. URLs
  are their own strings and are accepted when they start with \<open>http://\<close>; the absolute
  name is the name, a dot and the zone; the encoder writes the two fields with a
  separator; a response body is the message it decodes to, or \<open>None\<close> when it is not
  JSON; the default client reaches nobody.
\<close>

type_synonym stub_state = "(string + acmeProxy option Response) list"

definition stub_lib :: "(string, unit, acmeProxy option, stub_state) Lib" where
  "stub_lib =
     \<lparr>ParseNonEmptyURI =
        (\<lambda>s. if take 7 s = ''http://'' then Inr s else Inl ''invalid URI for request''),
      JoinPath = (\<lambda>u es. u @ concat (map (\<lambda>e. ''/'' @ e) es)),
      URLString = (\<lambda>u. u),
      AbsoluteName = (\<lambda>name zone. name @ ''.'' @ zone),
      Encode = (\<lambda>m. Inr (FQDN m @ ''='' @ Value_msg m)),
      NewRequestErr = (\<lambda>ctx method url. None),
      basicAuth = (\<lambda>username password. username @ '':'' @ password),
      Decode = (\<lambda>b. case b of None \<Rightarrow> Inl ''invalid character'' | Some m \<Rightarrow> Inr m),
      DefaultClient = (\<lambda>s req. (Inl ''connection refused'', s))\<rparr>"

text \<open>
  A scripted client, as a test injects one through \<open>Provider.HTTPClient\<close>: its state is
  the list of the answers it still has to give, one for each call of \<open>Do\<close>.
\<close>

definition scripted_client :: "(unit, acmeProxy option, stub_state) HTTPClient" where
  "scripted_client s req =
     (case s of [] \<Rightarrow> (Inl ''no answer scripted'', []) | a # as \<Rightarrow> (a, as))"

definition stub_provider :: "(unit, acmeProxy option, stub_state) Provider" where
  "stub_provider =
     \<lparr>Username = ''admin'', Password = ''password'',
      Endpoint = ''http://proxy:9090'', HTTPClient = Some scripted_client\<rparr>"

text \<open>The provider of provider_test.go: every field has its zero value.\<close>

definition zero_provider :: "(unit, acmeProxy option, stub_state) Provider" where
  "zero_provider = \<lparr>Username = [], Password = [], Endpoint = [], HTTPClient = None\<rparr>"

definition record_A :: Record where
  "record_A = \<lparr>ID = ''a'', Type = ''TXT'', Name = ''_acme-challenge'', Value = ''token-a'',
               TTL = 300\<rparr>"

definition record_B :: Record where
  "record_B = \<lparr>ID = ''b'', Type = ''TXT'', Name = ''_acme-challenge.www'', Value = ''token-b'',
               TTL = 60\<rparr>"

definition record_C :: Record where
  "record_C = \<lparr>ID = ''c'', Type = ''A'', Name = ''www'', Value = ''192.0.2.1'', TTL = 60\<rparr>"

definition echo_A :: "string + acmeProxy option Response" where
  "echo_A = Inr \<lparr>StatusCode = 200,
                 RespBody = Some \<lparr>FQDN = ''_acme-challenge.example.com'',
                                   Value_msg = ''token-a''\<rparr>\<rparr>"

definition echo_B :: "string + acmeProxy option Response" where
  "echo_B = Inr \<lparr>StatusCode = 200,
                 RespBody = Some \<lparr>FQDN = ''_acme-challenge.www.example.com'',
                                   Value_msg = ''token-b''\<rparr>\<rparr>"

definition status_500 :: "string + acmeProxy option Response" where
  "status_500 = Inr \<lparr>StatusCode = 500, RespBody = None\<rparr>"

definition world0 :: "stub_state \<Rightarrow> (unit, stub_state) World" where
  "world0 script = \<lparr>sent = [], client_state = script\<rparr>"

text \<open>
  The request the provider is expected to hand to the client for \<open>stub_provider\<close>, and
  a run where the proxy answers the second request with status 500: the script, the world
  after the first record and the world after the second.
\<close>

definition stub_request :: "string \<Rightarrow> string \<Rightarrow> unit Request" where
  "stub_request url body =
     \<lparr>Context = (), Method = ''POST'', URL = url,
      Header = [''Accept'' \<mapsto> ''application/json'', ''Content-Type'' \<mapsto> ''application/json'',
                ''Authorization'' \<mapsto> ''Basic admin:password''],
      Body = body\<rparr>"

definition script_fail_2nd :: stub_state where
  "script_fail_2nd = [echo_A, status_500, echo_A]"

definition world1 :: "(unit, stub_state) World" where
  "world1 = \<lparr>sent = [stub_request ''http://proxy:9090/present''
                       ''_acme-challenge.example.com=token-a''],
             client_state = [status_500, echo_A]\<rparr>"

definition world2 :: "(unit, stub_state) World" where
  "world2 = \<lparr>sent = [stub_request ''http://proxy:9090/present''
                       ''_acme-challenge.example.com=token-a'',
                     stub_request ''http://proxy:9090/present''
                       ''_acme-challenge.www.example.com=token-b''],
             client_state = [echo_A]\<rparr>"

text \<open>The same run for \<open>DeleteRecords\<close>: the requests go to \<open>cleanup\<close>.\<close>

definition world1_cleanup :: "(unit, stub_state) World" where
  "world1_cleanup = \<lparr>sent = [stub_request ''http://proxy:9090/cleanup''
                       ''_acme-challenge.example.com=token-a''],
             client_state = [status_500, echo_A]\<rparr>"

definition world2_cleanup :: "(unit, stub_state) World" where
  "world2_cleanup = \<lparr>sent = [stub_request ''http://proxy:9090/cleanup''
                       ''_acme-challenge.example.com=token-a'',
                     stub_request ''http://proxy:9090/cleanup''
                       ''_acme-challenge.www.example.com=token-b''],
             client_state = [echo_A]\<rparr>"

lemmas stub_defs =
  stub_lib_def scripted_client_def stub_provider_def zero_provider_def
  record_A_def record_B_def record_C_def echo_A_def echo_B_def status_500_def world0_def

lemmas provider_defs =
  ParseRequestURI_def NewRequestWithContext_def Header_Set_def SetBasicAuth_def Do_def
  getClient_def doAction_def doActions_def GetRecords_def SetRecords_def AppendRecords_def
  DeleteRecords_def elems_def

section \<open>Properties\<close>

subsection \<open>One record\<close>

text \<open>
  What \<open>doAction\<close> does, in two cases. Either it fails before the request is sent
  and leaves the world as it was; or the record is a TXT record, one request is handed
  to the client, with the method, the URL, the headers and the body below, and the result
  is decided by the client's answer.
\<close>

lemma doAction_cases:
  obtains (early) err where
      "doAction lib p ctx endpoint action zone r w = (Inl err, w)"
  | (sent) req res s' where
      "Type r = ''TXT''"
      "Encode lib \<lparr>FQDN = AbsoluteName lib (Name r) zone, Value_msg = Value r\<rparr> = Inr (Body req)"
      "Method req = ''POST''" "URL req = URLString lib endpoint" "Context req = ctx"
      "Header req ''Accept'' = Some ''application/json''"
      "Header req ''Content-Type'' = Some ''application/json''"
      "Header req ''Authorization'' =
         (if Username p \<noteq> [] \<or> Password p \<noteq> []
          then Some (''Basic '' @ basicAuth lib (Username p) (Password p)) else None)"
      "getClient lib p (client_state w) req = (res, s')"
      "snd (doAction lib p ctx endpoint action zone r w) =
         \<lparr>sent = sent w @ [req], client_state = s'\<rparr>"
      "fst (doAction lib p ctx endpoint action zone r w) =
         (case res of
            Inl e \<Rightarrow> Inl (CouldNotSendRequest e)
          | Inr resp \<Rightarrow>
              if StatusCode resp \<noteq> 200 then Inl (ReceivedStatusCode (StatusCode resp))
              else (case Decode lib (RespBody resp) of
                      Inl e \<Rightarrow> Inl (CouldNotUnmarshalJSON e)
                    | Inr m \<Rightarrow>
                        if FQDN m \<noteq> AbsoluteName lib (Name r) zone
                        then Inl (UnexpectedFQDN (FQDN m))
                        else if Value_msg m \<noteq> Value r then Inl (UnexpectedValue (Value_msg m))
                        else Inr (r\<lparr>Type := ''TXT''\<rparr>)))"
proof (cases "Type r = ''TXT''")
  case False
  then show thesis using early by (simp add: doAction_def)
next
  case is_txt: True
  show thesis
  proof (cases "Encode lib \<lparr>FQDN = AbsoluteName lib (Name r) zone, Value_msg = Value r\<rparr>")
    case (Inl e)
    then show thesis using early is_txt by (simp add: doAction_def)
  next
    case enc: (Inr body)
    show thesis
    proof (cases "NewRequestErr lib ctx ''POST'' (URLString lib endpoint)")
      case (Some e)
      then show thesis using early is_txt enc
        by (simp add: doAction_def NewRequestWithContext_def)
    next
      case None
      define req2 where "req2 =
        Header_Set (Header_Set \<lparr>Context = ctx, Method = ''POST'', URL = URLString lib endpoint,
                       Header = Map.empty, Body = body\<rparr> ''Accept'' ''application/json'')
          ''Content-Type'' ''application/json''"
      define req where "req =
        (if Username p \<noteq> [] \<or> Password p \<noteq> []
         then SetBasicAuth lib req2 (Username p) (Password p) else req2)"
      obtain res s' where cl: "getClient lib p (client_state w) req = (res, s')"
        by (cases "getClient lib p (client_state w) req")
      have unfold: "doAction lib p ctx endpoint action zone r w =
        (case Do (getClient lib p) req w of
           (Inl err, w') \<Rightarrow> (Inl (CouldNotSendRequest err), w')
         | (Inr resp, w') \<Rightarrow>
             if StatusCode resp \<noteq> 200
             then (Inl (ReceivedStatusCode (StatusCode resp)), w')
             else
               (case Decode lib (RespBody resp) of
                  Inl err \<Rightarrow> (Inl (CouldNotUnmarshalJSON err), w')
                | Inr respMsg \<Rightarrow>
                    if FQDN respMsg \<noteq> AbsoluteName lib (Name r) zone
                    then (Inl (UnexpectedFQDN (FQDN respMsg)), w')
                    else if Value_msg respMsg \<noteq> Value r
                    then (Inl (UnexpectedValue (Value_msg respMsg)), w')
                    else (Inr \<lparr>ID = ID r, Type = ''TXT'', Name = Name r, Value = Value r,
                               TTL = TTL r\<rparr>, w')))"
        unfolding doAction_def NewRequestWithContext_def req_def req2_def Let_def
        by (simp only: is_txt enc None option.case sum.case simp_thms if_False)
      have sendq: "Do (getClient lib p) req w = (res, \<lparr>sent = sent w @ [req], client_state = s'\<rparr>)"
        by (simp add: Do_def cl)
      have r_eq: "\<lparr>ID = ID r, Type = ''TXT'', Name = Name r, Value = Value r, TTL = TTL r\<rparr>
                   = r\<lparr>Type := ''TXT''\<rparr>"
        by simp
      have s: "snd (doAction lib p ctx endpoint action zone r w) =
                 \<lparr>sent = sent w @ [req], client_state = s'\<rparr>"
        unfolding unfold sendq by (simp split: sum.split)
      have f: "fst (doAction lib p ctx endpoint action zone r w) =
         (case res of
            Inl e \<Rightarrow> Inl (CouldNotSendRequest e)
          | Inr resp \<Rightarrow>
              if StatusCode resp \<noteq> 200 then Inl (ReceivedStatusCode (StatusCode resp))
              else (case Decode lib (RespBody resp) of
                      Inl e \<Rightarrow> Inl (CouldNotUnmarshalJSON e)
                    | Inr m \<Rightarrow>
                        if FQDN m \<noteq> AbsoluteName lib (Name r) zone
                        then Inl (UnexpectedFQDN (FQDN m))
                        else if Value_msg m \<noteq> Value r then Inl (UnexpectedValue (Value_msg m))
                        else Inr (r\<lparr>Type := ''TXT''\<rparr>)))"
        unfolding unfold sendq r_eq by (simp split: sum.split)
      have b: "Body req = body" "Method req = ''POST''" "URL req = URLString lib endpoint"
        "Context req = ctx"
        by (simp_all add: req_def req2_def Header_Set_def SetBasicAuth_def)
      have h: "Header req ''Accept'' = Some ''application/json''"
        "Header req ''Content-Type'' = Some ''application/json''"
        "Header req ''Authorization'' =
         (if Username p \<noteq> [] \<or> Password p \<noteq> []
          then Some (''Basic '' @ basicAuth lib (Username p) (Password p)) else None)"
        by (simp_all add: req_def req2_def Header_Set_def SetBasicAuth_def)
      show thesis
        using sent [of req res s'] is_txt enc b h cl s f by simp
    qed
  qed
qed


text \<open>A record that succeeds comes back with the type \<open>TXT\<close> and nothing else changed.\<close>

lemma doAction_Inr:
  assumes "doAction lib p ctx endpoint action zone r w = (Inr cr, w')"
  shows "cr = r\<lparr>Type := ''TXT''\<rparr>"
proof (cases rule: doAction_cases [of lib p ctx endpoint action zone r w])
  case (early err)
  with assms show ?thesis by simp
next
  case (sent req res s')
  from sent(11) assms show ?thesis
    by (simp split: sum.splits if_splits)
qed

text \<open>One call of \<open>doAction\<close> sends at most one request, a POST to the endpoint.\<close>

lemma doAction_sent:
  "\<exists>new. sent (snd (doAction lib p ctx endpoint action zone r w)) = sent w @ new
     \<and> length new \<le> 1
     \<and> (\<forall>req\<in>set new. URL req = URLString lib endpoint \<and> Method req = ''POST'')"
proof (cases rule: doAction_cases [of lib p ctx endpoint action zone r w])
  case (early err)
  then show ?thesis by simp
next
  case (sent req res s')
  then show ?thesis by simp
qed

subsection \<open>The loop\<close>

text \<open>
  The loop over records that \<open>doAction\<close> processes successfully one after the other,
  each in the world the one before left (\<open>ws\<close> lists these worlds): it returns all of
  them, with the type \<open>TXT\<close>, after the records completed before, no error, and the last
  world.
\<close>

lemma doActions_loop_run:
  assumes "length ws = Suc (length pre)"
    and "\<forall>i<length pre. \<exists>cr.
           doAction lib p ctx endpoint action zone (pre ! i) (ws ! i) = (Inr cr, ws ! Suc i)"
  shows "doActions_loop lib p ctx endpoint action zone pre acc (ws ! 0)
           = ((Some (acc @ map (\<lambda>r. r\<lparr>Type := ''TXT''\<rparr>) pre), None), ws ! length pre)"
  using assms
proof (induction pre arbitrary: ws acc)
  case Nil
  then show ?case by simp
next
  case (Cons x pre)
  from Cons.prems(1) obtain w0 ws' where ws: "ws = w0 # ws'" "length ws' = Suc (length pre)"
    by (cases ws) auto
  from Cons.prems(2) have "\<exists>cr. doAction lib p ctx endpoint action zone ((x # pre) ! 0) (ws ! 0)
                              = (Inr cr, ws ! Suc 0)"
    by blast
  then obtain cr where x: "doAction lib p ctx endpoint action zone x w0 = (Inr cr, ws' ! 0)"
    by (auto simp: ws)
  then have cr: "cr = x\<lparr>Type := ''TXT''\<rparr>" by (rule doAction_Inr)
  have "\<forall>i<length pre. \<exists>cr.
           doAction lib p ctx endpoint action zone (pre ! i) (ws' ! i) = (Inr cr, ws' ! Suc i)"
  proof (intro allI impI)
    fix i assume "i < length pre"
    then have "Suc i < length (x # pre)" by simp
    with Cons.prems(2) have "\<exists>cr. doAction lib p ctx endpoint action zone ((x # pre) ! Suc i)
                                (ws ! Suc i) = (Inr cr, ws ! Suc (Suc i))"
      by blast
    then show "\<exists>cr. doAction lib p ctx endpoint action zone (pre ! i) (ws' ! i)
                   = (Inr cr, ws' ! Suc i)"
      by (simp add: ws)
  qed
  from Cons.IH [OF ws(2) this, of "acc @ [cr]"] x cr show ?case
    by (simp add: ws)
qed

text \<open>
  If the loop gets through \<open>pre\<close> and the next record fails, the loop over any longer
  batch stops there, with the records of \<open>pre\<close> and the world the failing record left.
\<close>

lemma doActions_loop_fail:
  assumes "doActions_loop lib p ctx endpoint action zone pre acc w = ((Some cs, None), w1)"
    and "doAction lib p ctx endpoint action zone r w1 = (Inl err, w2)"
  shows "doActions_loop lib p ctx endpoint action zone (pre @ r # post) acc w =
           ((Some cs, Some (CouldNotActionRecord action (Name r) err)), w2)"
  using assms
proof (induction pre arbitrary: acc w)
  case Nil
  then show ?case by simp
next
  case (Cons x pre)
  obtain res w' where x: "doAction lib p ctx endpoint action zone x w = (res, w')"
    by (cases "doAction lib p ctx endpoint action zone x w")
  show ?case
  proof (cases res)
    case (Inl e)
    with Cons.prems(1) x show ?thesis by simp
  next
    case (Inr cr)
    with Cons.prems(1) x
    have "doActions_loop lib p ctx endpoint action zone pre (acc @ [cr]) w' = ((Some cs, None), w1)"
      by simp
    from Cons.IH [OF this Cons.prems(2)] x Inr show ?thesis by simp
  qed
qed

text \<open>
  The loop returns the records completed before it, then those of a prefix of the batch,
  each with the type \<open>TXT\<close>; the prefix is the whole batch exactly when no error is
  returned.
\<close>

lemma doActions_loop_prefix:
  assumes "doActions_loop lib p ctx endpoint action zone rs acc w = ((c, e), w')"
  shows "\<exists>n\<le>length rs. c = Some (acc @ map (\<lambda>r. r\<lparr>Type := ''TXT''\<rparr>) (take n rs))
           \<and> (e = None \<longleftrightarrow> n = length rs)"
  using assms
proof (induction rs arbitrary: acc w)
  case Nil
  then show ?case by auto
next
  case (Cons x rs)
  obtain res w1 where x: "doAction lib p ctx endpoint action zone x w = (res, w1)"
    by (cases "doAction lib p ctx endpoint action zone x w")
  show ?case
  proof (cases res)
    case (Inl err)
    with Cons.prems x have "c = Some acc" "e \<noteq> None" by auto
    then show ?thesis by (intro exI [of _ 0]) simp
  next
    case (Inr cr)
    with x have cr: "cr = x\<lparr>Type := ''TXT''\<rparr>" by (simp add: doAction_Inr)
    from Cons.prems x Inr
    have "doActions_loop lib p ctx endpoint action zone rs (acc @ [cr]) w1 = ((c, e), w')"
      by simp
    from Cons.IH [OF this] obtain n where
      n: "n \<le> length rs" "c = Some ((acc @ [cr]) @ map (\<lambda>r. r\<lparr>Type := ''TXT''\<rparr>) (take n rs))"
         "e = None \<longleftrightarrow> n = length rs"
      by blast
    then show ?thesis using cr by (intro exI [of _ "Suc n"]) simp
  qed
qed

text \<open>The loop sends at most one request for each record, all to the same URL.\<close>

lemma doActions_loop_sent:
  "\<exists>new. sent (snd (doActions_loop lib p ctx endpoint action zone rs acc w)) = sent w @ new
     \<and> length new \<le> length rs
     \<and> (\<forall>req\<in>set new. URL req = URLString lib endpoint \<and> Method req = ''POST'')"
proof (induction rs arbitrary: acc w)
  case Nil
  then show ?case by simp
next
  case (Cons x rs)
  obtain res w1 where x: "doAction lib p ctx endpoint action zone x w = (res, w1)"
    by (cases "doAction lib p ctx endpoint action zone x w")
  from doAction_sent [of lib p ctx endpoint action zone x w] x
  obtain new1 where new1: "sent w1 = sent w @ new1" "length new1 \<le> 1"
    "\<forall>req\<in>set new1. URL req = URLString lib endpoint \<and> Method req = ''POST''"
    by auto
  show ?case
  proof (cases res)
    case (Inl err)
    with x new1 show ?thesis by (intro exI [of _ new1]) simp
  next
    case (Inr cr)
    from Cons.IH [of "acc @ [cr]" w1]
    obtain new2 where new2:
      "sent (snd (doActions_loop lib p ctx endpoint action zone rs (acc @ [cr]) w1)) = sent w1 @ new2"
      "length new2 \<le> length rs"
      "\<forall>req\<in>set new2. URL req = URLString lib endpoint \<and> Method req = ''POST''"
      by blast
    with x Inr new1 show ?thesis by (intro exI [of _ "new1 @ new2"]) auto
  qed
qed


subsection \<open>The test doubles at work\<close>

lemma stub_parse:
  "ParseRequestURI stub_lib (Endpoint stub_provider) = Inr ''http://proxy:9090''"
  by (simp add: ParseRequestURI_def stub_lib_def stub_provider_def)

lemma stub_join:
  "JoinPath stub_lib ''http://proxy:9090'' [''present''] = ''http://proxy:9090/present''"
  "JoinPath stub_lib ''http://proxy:9090'' [''cleanup''] = ''http://proxy:9090/cleanup''"
  by (simp_all add: stub_lib_def)

lemma stub_URLString: "URLString stub_lib u = u"
  by (simp add: stub_lib_def)

lemma stub_doAction_echo_A:
  "doAction stub_lib stub_provider () url action ''example.com'' record_A
     \<lparr>sent = tr, client_state = echo_A # script\<rparr>
   = (Inr record_A,
      \<lparr>sent = tr @ [stub_request url ''_acme-challenge.example.com=token-a''],
       client_state = script\<rparr>)"
  by (simp add: provider_defs stub_defs stub_request_def)

lemma stub_doAction_500_B:
  "doAction stub_lib stub_provider () url action ''example.com'' record_B
     \<lparr>sent = tr, client_state = status_500 # script\<rparr>
   = (Inl (ReceivedStatusCode 500),
      \<lparr>sent = tr @ [stub_request url ''_acme-challenge.www.example.com=token-b''],
       client_state = script\<rparr>)"
  by (simp add: provider_defs stub_defs stub_request_def)

lemma stub_doAction_echo_B:
  "doAction stub_lib stub_provider () url action ''example.com'' record_B
     \<lparr>sent = tr, client_state = echo_B # script\<rparr>
   = (Inr record_B,
      \<lparr>sent = tr @ [stub_request url ''_acme-challenge.www.example.com=token-b''],
       client_state = script\<rparr>)"
  by (simp add: provider_defs stub_defs stub_request_def)

text \<open>
  The scenario of the specification: two TXT records for the zone \<open>example.com\<close>, and
  the proxy echoes both.
\<close>

lemma stub_SetRecords_AB:
  "fst (SetRecords stub_lib stub_provider () ''example.com'' [record_A, record_B]
          (world0 [echo_A, echo_B]))
   = (Some [record_A, record_B], None)"
  by (simp add: SetRecords_def doActions_def stub_parse stub_join stub_doAction_echo_A
        stub_doAction_echo_B world0_def)

lemma stub_Name_B: "Name record_B = ''_acme-challenge.www''"
  by (simp add: record_B_def)

lemma stub_SetRecords_ABC:
  "SetRecords stub_lib stub_provider () ''example.com'' [record_A, record_B, record_C]
     (world0 script_fail_2nd)
   = ((Some [record_A],
       Some (CouldNotActionRecord ''present'' ''_acme-challenge.www'' (ReceivedStatusCode 500))),
      world2)"
  by (simp add: SetRecords_def doActions_def stub_parse stub_join stub_doAction_echo_A
        stub_doAction_500_B world0_def world2_def script_fail_2nd_def stub_Name_B)

lemma stub_Set_Delete_A:
  "SetRecords stub_lib stub_provider () ''example.com'' [record_A] (world0 [echo_A])
   = ((Some [record_A], None),
      \<lparr>sent = [stub_request ''http://proxy:9090/present'' ''_acme-challenge.example.com=token-a''],
       client_state = []\<rparr>)"
  "DeleteRecords stub_lib stub_provider () ''example.com'' [record_A] (world0 [echo_A])
   = ((Some [record_A], None),
      \<lparr>sent = [stub_request ''http://proxy:9090/cleanup'' ''_acme-challenge.example.com=token-a''],
       client_state = []\<rparr>)"
  by (simp_all add: SetRecords_def DeleteRecords_def doActions_def stub_parse stub_join
        stub_doAction_echo_A world0_def)

text \<open>
  The two tests of provider_test.go: a provider with every field zero, the zone
  \<open>example.com\<close>, and for \<open>AppendRecords\<close> the empty batch; both expect a nil list and an
  error.
\<close>

lemma TestProvider_AppendRecords:
  "\<exists>err. fst (AppendRecords lib zero_provider ctx ''example.com'' [] w) = (None, Some err)"
  by (simp add: AppendRecords_def SetRecords_def doActions_def ParseRequestURI_def
        zero_provider_def)

lemma TestProvider_GetRecords:
  "\<exists>err. fst (GetRecords lib zero_provider ctx ''example.com'' w) = (None, Some err)"
  by (simp add: GetRecords_def)

section \<open>The claims\<close>

text \<open>
  C1. Let record \<open>k\<close> be the first record of a batch whose processing fails: \<open>doAction\<close>
  succeeds on each of the \<open>k - 1\<close> records \<open>pre\<close> before it, the first in the world \<open>w\<close>
  of the call and each next one in the world the one before left (\<open>ws\<close> lists these
  worlds), and \<open>doAction\<close> on record \<open>r\<close> fails in the world reached, ending in \<open>w2\<close>.
  Then \<open>SetRecords\<close>, \<open>AppendRecords\<close> and \<open>DeleteRecords\<close> on the whole batch
  \<open>pre @ r # post\<close> return exactly \<open>k - 1\<close> completed records, those of \<open>pre\<close>, together
  with an error, and end in \<open>w2\<close> whatever \<open>post\<close> is: no record after \<open>r\<close> is processed,
  and at most \<open>k\<close> requests were sent.
\<close>

theorem C1_first_failure_stops_batch:
  assumes "(f, action) \<in> {(SetRecords lib p, ''present''), (AppendRecords lib p, ''present''),
                           (DeleteRecords lib p, ''cleanup'')}"
    and "ParseRequestURI lib (Endpoint p) = Inr uri"
    and "length ws = Suc (length pre)"
    and "ws ! 0 = w"
    and "\<forall>i<length pre. \<exists>cr.
           doAction lib p ctx (JoinPath lib uri [action]) action zone (pre ! i) (ws ! i)
             = (Inr cr, ws ! Suc i)"
    and "doAction lib p ctx (JoinPath lib uri [action]) action zone r (ws ! length pre)
           = (Inl err, w2)"
  shows "\<exists>completed.
           f ctx zone (pre @ r # post) w
             = ((Some completed, Some (CouldNotActionRecord action (Name r) err)), w2)
         \<and> length completed = length pre
         \<and> completed = map (\<lambda>r. r\<lparr>Type := ''TXT''\<rparr>) pre
         \<and> (\<exists>new. sent w2 = sent w @ new \<and> length new \<le> Suc (length pre))"
proof -
  let ?ep = "JoinPath lib uri [action]"
  let ?cs = "map (\<lambda>r. r\<lparr>Type := ''TXT''\<rparr>) pre"
  have f: "f ctx zone rs w = doActions_loop lib p ctx ?ep action zone rs [] w" for rs
    using assms(1,2)
    by (auto simp: SetRecords_def AppendRecords_def DeleteRecords_def doActions_def)
  from doActions_loop_run [OF assms(3,5), of "[]"] assms(4)
  have pre: "doActions_loop lib p ctx ?ep action zone pre [] w
               = ((Some ?cs, None), ws ! length pre)"
    by simp
  from doActions_loop_fail [OF pre assms(6)]
  have 1: "f ctx zone (pre @ r # post) w
             = ((Some ?cs, Some (CouldNotActionRecord action (Name r) err)), w2)"
    by (simp add: f)
  from doActions_loop_sent [of lib p ctx ?ep action zone pre "[]" w] pre
  obtain new1 where new1: "sent (ws ! length pre) = sent w @ new1" "length new1 \<le> length pre"
    by auto
  from doAction_sent [of lib p ctx ?ep action zone r "ws ! length pre"] assms(6)
  obtain new2 where new2: "sent w2 = sent (ws ! length pre) @ new2" "length new2 \<le> 1"
    by auto
  from new1 new2 have 3: "\<exists>new. sent w2 = sent w @ new \<and> length new \<le> Suc (length pre)"
    by (intro exI [of _ "new1 @ new2"]) simp
  from 1 3 show ?thesis by simp
qed

theorem C1_witness:
  "(SetRecords stub_lib stub_provider, ''present'')
     \<in> {(SetRecords stub_lib stub_provider, ''present''),
        (AppendRecords stub_lib stub_provider, ''present''),
        (DeleteRecords stub_lib stub_provider, ''cleanup'')}
   \<and> (DeleteRecords stub_lib stub_provider, ''cleanup'')
     \<in> {(SetRecords stub_lib stub_provider, ''present''),
        (AppendRecords stub_lib stub_provider, ''present''),
        (DeleteRecords stub_lib stub_provider, ''cleanup'')}
   \<and> ParseRequestURI stub_lib (Endpoint stub_provider) = Inr ''http://proxy:9090''
   \<and> length [world0 script_fail_2nd, world1] = Suc (length [record_A])
   \<and> [world0 script_fail_2nd, world1] ! 0 = world0 script_fail_2nd
   \<and> doAction stub_lib stub_provider () (JoinPath stub_lib ''http://proxy:9090'' [''present''])
        ''present'' ''example.com'' ([record_A] ! 0) ([world0 script_fail_2nd, world1] ! 0)
       = (Inr record_A, [world0 script_fail_2nd, world1] ! Suc 0)
   \<and> doAction stub_lib stub_provider () (JoinPath stub_lib ''http://proxy:9090'' [''present''])
        ''present'' ''example.com'' record_B ([world0 script_fail_2nd, world1] ! length [record_A])
       = (Inl (ReceivedStatusCode 500), world2)
   \<and> SetRecords stub_lib stub_provider () ''example.com'' ([record_A] @ record_B # [record_C])
        (world0 script_fail_2nd)
       = ((Some [record_A],
           Some (CouldNotActionRecord ''present'' (Name record_B) (ReceivedStatusCode 500))),
          world2)
   \<and> length [record_A] = length [record_A]
   \<and> [record_A] = map (\<lambda>r. r\<lparr>Type := ''TXT''\<rparr>) [record_A]
   \<and> (\<exists>new. sent world2 = sent (world0 script_fail_2nd) @ new
           \<and> length new \<le> Suc (length [record_A]))
   \<and> doAction stub_lib stub_provider () (JoinPath stub_lib ''http://proxy:9090'' [''cleanup''])
        ''cleanup'' ''example.com'' ([record_A] ! 0)
        ([world0 script_fail_2nd, world1_cleanup] ! 0)
       = (Inr record_A, [world0 script_fail_2nd, world1_cleanup] ! Suc 0)
   \<and> doAction stub_lib stub_provider () (JoinPath stub_lib ''http://proxy:9090'' [''cleanup''])
        ''cleanup'' ''example.com'' record_B
        ([world0 script_fail_2nd, world1_cleanup] ! length [record_A])
       = (Inl (ReceivedStatusCode 500), world2_cleanup)
   \<and> DeleteRecords stub_lib stub_provider () ''example.com''
        ([record_A] @ record_B # [record_C]) (world0 script_fail_2nd)
       = ((Some [record_A],
           Some (CouldNotActionRecord ''cleanup'' (Name record_B) (ReceivedStatusCode 500))),
          world2_cleanup)"
proof -
  let ?S = "{(SetRecords stub_lib stub_provider, ''present''),
        (AppendRecords stub_lib stub_provider, ''present''),
        (DeleteRecords stub_lib stub_provider, ''cleanup'')}"
  let ?ws = "[world0 script_fail_2nd, world1]"
  let ?wsc = "[world0 script_fail_2nd, world1_cleanup]"
  have m1: "(SetRecords stub_lib stub_provider, ''present'') \<in> ?S" by simp
  have m2: "(DeleteRecords stub_lib stub_provider, ''cleanup'') \<in> ?S" by simp
  have l: "length ?ws = Suc (length [record_A])" "length ?wsc = Suc (length [record_A])"
    by simp_all
  have z: "?ws ! 0 = world0 script_fail_2nd" "?wsc ! 0 = world0 script_fail_2nd"
    by simp_all
  have a: "doAction stub_lib stub_provider ()
             (JoinPath stub_lib ''http://proxy:9090'' [''present''])
             ''present'' ''example.com'' ([record_A] ! 0) (?ws ! 0) = (Inr record_A, ?ws ! Suc 0)"
    by (simp add: stub_join stub_doAction_echo_A world0_def world1_def script_fail_2nd_def)
  have ac: "doAction stub_lib stub_provider ()
             (JoinPath stub_lib ''http://proxy:9090'' [''cleanup''])
             ''cleanup'' ''example.com'' ([record_A] ! 0) (?wsc ! 0)
            = (Inr record_A, ?wsc ! Suc 0)"
    by (simp add: stub_join stub_doAction_echo_A world0_def world1_cleanup_def
          script_fail_2nd_def)
  have b: "doAction stub_lib stub_provider ()
             (JoinPath stub_lib ''http://proxy:9090'' [''present''])
             ''present'' ''example.com'' record_B (?ws ! length [record_A])
            = (Inl (ReceivedStatusCode 500), world2)"
    by (simp add: stub_join stub_doAction_500_B world1_def world2_def)
  have bc: "doAction stub_lib stub_provider ()
             (JoinPath stub_lib ''http://proxy:9090'' [''cleanup''])
             ''cleanup'' ''example.com'' record_B (?wsc ! length [record_A])
            = (Inl (ReceivedStatusCode 500), world2_cleanup)"
    by (simp add: stub_join stub_doAction_500_B world1_cleanup_def world2_cleanup_def)
  have all: "\<forall>i<length [record_A]. \<exists>cr.
           doAction stub_lib stub_provider ()
             (JoinPath stub_lib ''http://proxy:9090'' [''present''])
             ''present'' ''example.com'' ([record_A] ! i) (?ws ! i) = (Inr cr, ?ws ! Suc i)"
    using a by simp
  have allc: "\<forall>i<length [record_A]. \<exists>cr.
           doAction stub_lib stub_provider ()
             (JoinPath stub_lib ''http://proxy:9090'' [''cleanup''])
             ''cleanup'' ''example.com'' ([record_A] ! i) (?wsc ! i) = (Inr cr, ?wsc ! Suc i)"
    using ac by simp
  have t: "map (\<lambda>r. r\<lparr>Type := ''TXT''\<rparr>) [record_A] = [record_A]"
    by (simp add: record_A_def)
  from C1_first_failure_stops_batch [OF m1 stub_parse l(1) z(1) all b, of "[record_C]"]
  have 1: "SetRecords stub_lib stub_provider () ''example.com''
             ([record_A] @ record_B # [record_C]) (world0 script_fail_2nd)
           = ((Some [record_A],
               Some (CouldNotActionRecord ''present'' (Name record_B) (ReceivedStatusCode 500))),
              world2)"
    and 2: "\<exists>new. sent world2 = sent (world0 script_fail_2nd) @ new
               \<and> length new \<le> Suc (length [record_A])"
    unfolding t by auto
  from C1_first_failure_stops_batch [OF m2 stub_parse l(2) z(2) allc bc, of "[record_C]"]
  have 3: "DeleteRecords stub_lib stub_provider () ''example.com''
             ([record_A] @ record_B # [record_C]) (world0 script_fail_2nd)
           = ((Some [record_A],
               Some (CouldNotActionRecord ''cleanup'' (Name record_B) (ReceivedStatusCode 500))),
              world2_cleanup)"
    unfolding t by auto
  from m1 m2 stub_parse l z a b ac bc 1 2 3 t show ?thesis by simp
qed

text \<open>
  C2. Suppose \<open>doAction\<close> reaches the validation of the response: it handed the request
  \<open>req\<close> to the client, the client answered with a response of status 200, and the body
  decoded to \<open>respMsg\<close>. Then the call succeeds if and only if \<open>respMsg\<close> has the FQDN
  \<open>AbsoluteName(record.Name, zone)\<close> and the value of the record, and it fails with an
  error if and only if one of the two differs.
\<close>

theorem C2_success_iff_echo:
  assumes "sent (snd (doAction lib p ctx endpoint action zone r w)) = sent w @ [req]"
    and "getClient lib p (client_state w) req = (Inr resp, s')"
    and "StatusCode resp = 200"
    and "Decode lib (RespBody resp) = Inr respMsg"
  shows "((\<exists>cr. fst (doAction lib p ctx endpoint action zone r w) = Inr cr)
            \<longleftrightarrow> FQDN respMsg = AbsoluteName lib (Name r) zone \<and> Value_msg respMsg = Value r)
       \<and> ((\<exists>err. fst (doAction lib p ctx endpoint action zone r w) = Inl err)
            \<longleftrightarrow> FQDN respMsg \<noteq> AbsoluteName lib (Name r) zone \<or> Value_msg respMsg \<noteq> Value r)"
proof (cases rule: doAction_cases [of lib p ctx endpoint action zone r w])
  case (early err)
  with assms(1) show ?thesis by simp
next
  case (sent req' res s'')
  from sent(10) assms(1) have "req' = req" by simp
  with sent(9) assms(2) have "res = Inr resp" by simp
  with sent(11) assms(3,4) show ?thesis by simp
qed

theorem C2_witness:
  "sent (snd (doAction stub_lib stub_provider () ''http://proxy:9090/present'' ''present''
                ''example.com'' record_A (world0 [echo_A])))
     = sent (world0 [echo_A])
       @ [stub_request ''http://proxy:9090/present'' ''_acme-challenge.example.com=token-a'']
   \<and> getClient stub_lib stub_provider (client_state (world0 [echo_A]))
         (stub_request ''http://proxy:9090/present'' ''_acme-challenge.example.com=token-a'')
       = (Inr \<lparr>StatusCode = 200,
               RespBody = Some \<lparr>FQDN = ''_acme-challenge.example.com'',
                                 Value_msg = ''token-a''\<rparr>\<rparr>, [])
   \<and> StatusCode \<lparr>StatusCode = 200,
                  RespBody = Some \<lparr>FQDN = ''_acme-challenge.example.com'',
                                    Value_msg = ''token-a''\<rparr>\<rparr> = 200
   \<and> Decode stub_lib (RespBody \<lparr>StatusCode = 200,
                  RespBody = Some \<lparr>FQDN = ''_acme-challenge.example.com'',
                                    Value_msg = ''token-a''\<rparr>\<rparr>)
       = Inr \<lparr>FQDN = ''_acme-challenge.example.com'', Value_msg = ''token-a''\<rparr>
   \<and> (\<exists>cr. fst (doAction stub_lib stub_provider () ''http://proxy:9090/present'' ''present''
                ''example.com'' record_A (world0 [echo_A])) = Inr cr)
   \<and> \<not> (\<exists>err. fst (doAction stub_lib stub_provider () ''http://proxy:9090/present'' ''present''
                ''example.com'' record_A (world0 [echo_A])) = Inl err)"
proof -
  let ?resp = "\<lparr>StatusCode = 200,
                 RespBody = Some \<lparr>FQDN = ''_acme-challenge.example.com'',
                                   Value_msg = ''token-a''\<rparr>\<rparr>"
  have h1: "sent (snd (doAction stub_lib stub_provider () ''http://proxy:9090/present''
                ''present'' ''example.com'' record_A (world0 [echo_A])))
     = sent (world0 [echo_A])
       @ [stub_request ''http://proxy:9090/present'' ''_acme-challenge.example.com=token-a'']"
    by (simp add: world0_def stub_doAction_echo_A)
  have h2: "getClient stub_lib stub_provider (client_state (world0 [echo_A]))
         (stub_request ''http://proxy:9090/present'' ''_acme-challenge.example.com=token-a'')
       = (Inr ?resp, [])"
    by (simp add: getClient_def stub_provider_def scripted_client_def world0_def echo_A_def)
  have h3: "StatusCode ?resp = 200" by simp
  have h4: "Decode stub_lib (RespBody ?resp)
       = Inr \<lparr>FQDN = ''_acme-challenge.example.com'', Value_msg = ''token-a''\<rparr>"
    by (simp add: stub_lib_def)
  have v: "FQDN \<lparr>FQDN = ''_acme-challenge.example.com'', Value_msg = ''token-a''\<rparr>
             = AbsoluteName stub_lib (Name record_A) ''example.com''
           \<and> Value_msg \<lparr>FQDN = ''_acme-challenge.example.com'', Value_msg = ''token-a''\<rparr>
             = Value record_A"
    by (simp add: stub_lib_def record_A_def)
  from C2_success_iff_echo [OF h1 h2 h3 h4] v h1 h2 h3 h4
  show ?thesis by blast
qed

text \<open>
  C3. A record whose \<open>Type\<close> is not exactly \<open>TXT\<close> is refused: \<open>doAction\<close> returns
  the error and the world it was given, whatever the libraries are. So nothing was
  encoded, no request was built and none was handed to the client: the check comes first.
\<close>

theorem C3_non_TXT_rejected_before_any_request:
  assumes "Type r \<noteq> ''TXT''"
  shows "doAction lib p ctx endpoint action zone r w = (Inl OnlySupportsTXT, w)"
  using assms by (simp add: doAction_def)

theorem C3_witness:
  "Type record_C \<noteq> ''TXT''
   \<and> doAction stub_lib stub_provider () ''http://proxy:9090/present'' ''present'' ''example.com''
        record_C (world0 [echo_A]) = (Inl OnlySupportsTXT, world0 [echo_A])"
proof -
  have h: "Type record_C \<noteq> ''TXT''" by (simp add: record_C_def)
  from C3_non_TXT_rejected_before_any_request [OF h] h show ?thesis by simp
qed



text \<open>
  C5. With an invalid endpoint (the empty string, or any string that
  \<open>url.ParseRequestURI\<close> rejects), \<open>SetRecords\<close>, \<open>AppendRecords\<close> and \<open>DeleteRecords\<close>
  return a nil list and an error for every batch, and leave the world as it was: no
  request was sent.
\<close>

theorem C5_invalid_endpoint_fails_fast:
  assumes "Endpoint p = [] \<or> isl (ParseRequestURI lib (Endpoint p))"
  shows "\<exists>err.
           SetRecords lib p ctx zone records w = ((None, Some (InvalidEndpoint (Endpoint p) err)), w)
         \<and> AppendRecords lib p ctx zone records w = ((None, Some (InvalidEndpoint (Endpoint p) err)), w)
         \<and> DeleteRecords lib p ctx zone records w = ((None, Some (InvalidEndpoint (Endpoint p) err)), w)"
proof -
  from assms have "isl (ParseRequestURI lib (Endpoint p))"
    by (auto simp: ParseRequestURI_def)
  then obtain err where "ParseRequestURI lib (Endpoint p) = Inl err"
    by (cases "ParseRequestURI lib (Endpoint p)") simp_all
  then show ?thesis
    by (simp add: SetRecords_def AppendRecords_def DeleteRecords_def doActions_def)
qed

theorem C5_witness:
  "(Endpoint zero_provider = [] \<or> isl (ParseRequestURI stub_lib (Endpoint zero_provider)))
   \<and> (\<exists>err.
           SetRecords stub_lib zero_provider () ''example.com'' [record_A] (world0 [echo_A])
             = ((None, Some (InvalidEndpoint [] err)), world0 [echo_A])
         \<and> AppendRecords stub_lib zero_provider () ''example.com'' [record_A] (world0 [echo_A])
             = ((None, Some (InvalidEndpoint [] err)), world0 [echo_A])
         \<and> DeleteRecords stub_lib zero_provider () ''example.com'' [record_A] (world0 [echo_A])
             = ((None, Some (InvalidEndpoint [] err)), world0 [echo_A]))"
proof -
  have h: "Endpoint zero_provider = [] \<or> isl (ParseRequestURI stub_lib (Endpoint zero_provider))"
    by (simp add: zero_provider_def)
  have e: "Endpoint zero_provider = []" by (simp add: zero_provider_def)
  from C5_invalid_endpoint_fails_fast [OF h, of "()" "''example.com''" "[record_A]" "world0 [echo_A]"] h
  show ?thesis unfolding e by simp
qed

text \<open>
  C6. \<open>GetRecords\<close> returns a nil list and an error for every context, zone and provider,
  and leaves the world as it was: no request was sent.
\<close>

theorem C6_GetRecords_unsupported:
  "GetRecords lib p ctx zone w = ((None, Some DoesNotSupportListing), w)"
  by (simp add: GetRecords_def)

text \<open>
  C7. \<open>AppendRecords\<close> returns what \<open>SetRecords\<close> returns on the same inputs, result and
  world. Both run \<open>doActions\<close> with the action \<open>present\<close>, \<open>DeleteRecords\<close> runs it with
  \<open>cleanup\<close>, and every request a call sends goes to the configured endpoint with the
  action joined to it as a path segment.
\<close>

theorem C7_append_is_set_present_cleanup:
  "AppendRecords lib p ctx zone records w = SetRecords lib p ctx zone records w
   \<and> SetRecords lib p ctx zone records w = doActions lib p ctx ''present'' zone records w
   \<and> DeleteRecords lib p ctx zone records w = doActions lib p ctx ''cleanup'' zone records w
   \<and> (\<forall>uri. ParseRequestURI lib (Endpoint p) = Inr uri \<longrightarrow>
        (\<exists>new. sent (snd (SetRecords lib p ctx zone records w)) = sent w @ new
           \<and> (\<forall>req\<in>set new. URL req = URLString lib (JoinPath lib uri [''present''])))
      \<and> (\<exists>new. sent (snd (DeleteRecords lib p ctx zone records w)) = sent w @ new
           \<and> (\<forall>req\<in>set new. URL req = URLString lib (JoinPath lib uri [''cleanup'']))))"
proof -
  have "\<exists>new. sent (snd (doActions lib p ctx action zone records w)) = sent w @ new
           \<and> (\<forall>req\<in>set new. URL req = URLString lib (JoinPath lib uri [action]))"
    if "ParseRequestURI lib (Endpoint p) = Inr uri" for uri action
    using doActions_loop_sent [of lib p ctx "JoinPath lib uri [action]" action zone records "[]" w] that
    by (auto simp: doActions_def)
  then show ?thesis
    by (simp add: AppendRecords_def SetRecords_def DeleteRecords_def)
qed

theorem C7_witness:
  "ParseRequestURI stub_lib (Endpoint stub_provider) = Inr ''http://proxy:9090''
   \<and> AppendRecords stub_lib stub_provider () ''example.com'' [record_A] (world0 [echo_A])
       = SetRecords stub_lib stub_provider () ''example.com'' [record_A] (world0 [echo_A])
   \<and> sent (snd (SetRecords stub_lib stub_provider () ''example.com'' [record_A]
                  (world0 [echo_A])))
       = [stub_request ''http://proxy:9090/present'' ''_acme-challenge.example.com=token-a'']
   \<and> sent (snd (DeleteRecords stub_lib stub_provider () ''example.com'' [record_A]
                  (world0 [echo_A])))
       = [stub_request ''http://proxy:9090/cleanup'' ''_acme-challenge.example.com=token-a'']
   \<and> URL (stub_request ''http://proxy:9090/present'' ''_acme-challenge.example.com=token-a'')
       = URLString stub_lib (JoinPath stub_lib ''http://proxy:9090'' [''present''])
   \<and> URL (stub_request ''http://proxy:9090/cleanup'' ''_acme-challenge.example.com=token-a'')
       = URLString stub_lib (JoinPath stub_lib ''http://proxy:9090'' [''cleanup''])"
proof -
  have s: "sent (world0 [echo_A]) = []" by (simp add: world0_def)
  from C7_append_is_set_present_cleanup
         [of stub_lib stub_provider "()" "''example.com''" "[record_A]" "world0 [echo_A]"]
  have "AppendRecords stub_lib stub_provider () ''example.com'' [record_A] (world0 [echo_A])
       = SetRecords stub_lib stub_provider () ''example.com'' [record_A] (world0 [echo_A])"
    and "\<forall>req\<in>set (sent (snd (SetRecords stub_lib stub_provider () ''example.com'' [record_A]
                              (world0 [echo_A])))).
         URL req = URLString stub_lib (JoinPath stub_lib ''http://proxy:9090'' [''present''])"
    and "\<forall>req\<in>set (sent (snd (DeleteRecords stub_lib stub_provider () ''example.com''
                              [record_A] (world0 [echo_A])))).
         URL req = URLString stub_lib (JoinPath stub_lib ''http://proxy:9090'' [''cleanup''])"
    using stub_parse by (auto simp: s)
  then show ?thesis
    using stub_parse by (simp add: stub_Set_Delete_A)
qed

text \<open>
  C8. Every request \<open>doAction\<close> hands to the client has an \<open>Authorization\<close> header if and
  only if the username or the password of the provider is not empty, and then it is the
  Basic credentials of the two; it has the headers \<open>Accept: application/json\<close> and
  \<open>Content-Type: application/json\<close>; and its body is the JSON encoding of the message
  whose FQDN is \<open>AbsoluteName(record.Name, zone)\<close> and whose value is the record's.
\<close>

theorem C8_request_headers_auth_body:
  assumes "sent (snd (doAction lib p ctx endpoint action zone r w)) = sent w @ new"
    and "req \<in> set new"
  shows "(Header req ''Authorization'' \<noteq> None \<longleftrightarrow> Username p \<noteq> [] \<or> Password p \<noteq> [])
       \<and> (Username p \<noteq> [] \<or> Password p \<noteq> [] \<longrightarrow>
            Header req ''Authorization''
              = Some (''Basic '' @ basicAuth lib (Username p) (Password p)))
       \<and> Header req ''Accept'' = Some ''application/json''
       \<and> Header req ''Content-Type'' = Some ''application/json''
       \<and> Encode lib \<lparr>FQDN = AbsoluteName lib (Name r) zone, Value_msg = Value r\<rparr>
            = Inr (Body req)"
proof (cases rule: doAction_cases [of lib p ctx endpoint action zone r w])
  case (early err)
  with assms show ?thesis by simp
next
  case (sent req' res s'')
  from sent(10) assms have "req' = req" by auto
  with sent(2,6,7,8) show ?thesis by simp
qed

theorem C8_witness:
  "sent (snd (doAction stub_lib stub_provider () ''http://proxy:9090/present'' ''present''
                ''example.com'' record_A (world0 [echo_A])))
     = sent (world0 [echo_A])
       @ [stub_request ''http://proxy:9090/present'' ''_acme-challenge.example.com=token-a'']
   \<and> stub_request ''http://proxy:9090/present'' ''_acme-challenge.example.com=token-a''
       \<in> set [stub_request ''http://proxy:9090/present'' ''_acme-challenge.example.com=token-a'']
   \<and> Username stub_provider \<noteq> []
   \<and> Header (stub_request ''http://proxy:9090/present'' ''_acme-challenge.example.com=token-a'')
        ''Authorization'' = Some ''Basic admin:password''
   \<and> Header (stub_request ''http://proxy:9090/present'' ''_acme-challenge.example.com=token-a'')
        ''Accept'' = Some ''application/json''
   \<and> Header (stub_request ''http://proxy:9090/present'' ''_acme-challenge.example.com=token-a'')
        ''Content-Type'' = Some ''application/json''
   \<and> Encode stub_lib \<lparr>FQDN = AbsoluteName stub_lib (Name record_A) ''example.com'',
                       Value_msg = Value record_A\<rparr>
       = Inr ''_acme-challenge.example.com=token-a''"
proof -
  let ?req = "stub_request ''http://proxy:9090/present'' ''_acme-challenge.example.com=token-a''"
  have h1: "sent (snd (doAction stub_lib stub_provider () ''http://proxy:9090/present''
                ''present'' ''example.com'' record_A (world0 [echo_A])))
     = sent (world0 [echo_A]) @ [?req]"
    by (simp add: world0_def stub_doAction_echo_A)
  have h2: "?req \<in> set [?req]" by simp
  have u: "Username stub_provider \<noteq> []" "Username stub_provider = ''admin''"
    "Password stub_provider = ''password''" "Body ?req = ''_acme-challenge.example.com=token-a''"
    "basicAuth stub_lib ''admin'' ''password'' = ''admin:password''"
    by (simp_all add: stub_provider_def stub_request_def stub_lib_def)
  from C8_request_headers_auth_body [OF h1 h2] h1 h2 u
  show ?thesis by simp
qed

text \<open>
  C9. With a valid endpoint, \<open>SetRecords\<close>, \<open>AppendRecords\<close> and \<open>DeleteRecords\<close> on the
  empty batch return an empty list that is not nil and no error, and leave the world as
  it was: no request was sent.
\<close>

theorem C9_empty_batch:
  assumes "ParseRequestURI lib (Endpoint p) = Inr uri"
  shows "SetRecords lib p ctx zone [] w = ((Some [], None), w)
       \<and> AppendRecords lib p ctx zone [] w = ((Some [], None), w)
       \<and> DeleteRecords lib p ctx zone [] w = ((Some [], None), w)"
  using assms by (simp add: SetRecords_def AppendRecords_def DeleteRecords_def doActions_def)

theorem C9_witness:
  "ParseRequestURI stub_lib (Endpoint stub_provider) = Inr ''http://proxy:9090''
   \<and> SetRecords stub_lib stub_provider () ''example.com'' [] (world0 [echo_A])
       = ((Some [], None), world0 [echo_A])
   \<and> AppendRecords stub_lib stub_provider () ''example.com'' [] (world0 [echo_A])
       = ((Some [], None), world0 [echo_A])
   \<and> DeleteRecords stub_lib stub_provider () ''example.com'' [] (world0 [echo_A])
       = ((Some [], None), world0 [echo_A])"
proof -
  have h: "ParseRequestURI stub_lib (Endpoint stub_provider) = Inr ''http://proxy:9090''"
    by (simp add: ParseRequestURI_def stub_lib_def stub_provider_def)
  from C9_empty_batch [OF h] h show ?thesis by simp
qed

text \<open>
  C10. Whatever \<open>SetRecords\<close>, \<open>AppendRecords\<close> or \<open>DeleteRecords\<close> returns, the completed
  list is no longer than the batch, its record at each index is the record of the batch
  at that index with the type \<open>TXT\<close>, and when no error is returned it is as long as the
  batch.
\<close>

theorem C10_completed_is_prefix:
  assumes "f \<in> {SetRecords lib p, AppendRecords lib p, DeleteRecords lib p}"
    and "f ctx zone records w = ((completed, err), w')"
  shows "length (elems completed) \<le> length records
       \<and> (\<forall>i<length (elems completed). elems completed ! i = (records ! i)\<lparr>Type := ''TXT''\<rparr>)
       \<and> (err = None \<longrightarrow> length (elems completed) = length records)"
proof (cases "ParseRequestURI lib (Endpoint p)")
  case (Inl e)
  with assms have "completed = None" "err \<noteq> None"
    by (auto simp: SetRecords_def AppendRecords_def DeleteRecords_def doActions_def)
  then show ?thesis by (auto simp: elems_def)
next
  case (Inr uri)
  with assms obtain action where
    "doActions_loop lib p ctx (JoinPath lib uri [action]) action zone records [] w
       = ((completed, err), w')"
    by (auto simp: SetRecords_def AppendRecords_def DeleteRecords_def doActions_def)
  from doActions_loop_prefix [OF this] obtain n where
    n: "n \<le> length records"
       "completed = Some (map (\<lambda>r. r\<lparr>Type := ''TXT''\<rparr>) (take n records))"
       "err = None \<longleftrightarrow> n = length records"
    by auto
  then show ?thesis by (simp add: elems_def)
qed

theorem C10_witness:
  "SetRecords stub_lib stub_provider
     \<in> {SetRecords stub_lib stub_provider, AppendRecords stub_lib stub_provider,
        DeleteRecords stub_lib stub_provider}
   \<and> SetRecords stub_lib stub_provider () ''example.com'' [record_A, record_B, record_C]
        (world0 script_fail_2nd)
       = ((Some [record_A],
           Some (CouldNotActionRecord ''present'' ''_acme-challenge.www''
                   (ReceivedStatusCode 500))),
          world2)
   \<and> length (elems (Some [record_A])) \<le> length [record_A, record_B, record_C]
   \<and> elems (Some [record_A]) ! 0 = ([record_A, record_B, record_C] ! 0)\<lparr>Type := ''TXT''\<rparr>"
proof -
  have h1: "SetRecords stub_lib stub_provider
     \<in> {SetRecords stub_lib stub_provider, AppendRecords stub_lib stub_provider,
        DeleteRecords stub_lib stub_provider}"
    by simp
  have "(0::nat) < length (elems (Some [record_A]))" by (simp add: elems_def)
  with C10_completed_is_prefix [OF h1 stub_SetRecords_ABC] h1 stub_SetRecords_ABC
  show ?thesis by blast
qed

end
